theory Spec2Isabelle
  imports Main
begin

section \<open>Data model of \<open>src/App.tsx\<close>\<close>

text \<open>
  The component \<open>App\<close> keeps its state in React hooks and acts on the browser through
  the toast queue, the console, the address bar and one relay connection. The model puts
  the hook values and the observable effects into one record, and every handler of the
  component becomes a function from that record to the updated one.
\<close>

text \<open>A nostr event, with the fields the component reads. A tag is an array of strings.\<close>

record event =
  event_id :: string
  content :: string
  created_at :: int
  tags :: "string list list"

datatype toast_status = error | warning | info

record toast =
  title :: string
  status :: toast_status

text \<open>
  A JavaScript number as far as the component produces one for a time bound:
  \<open>getTime() / 1000\<close> is the integer \<open>ms div 1000\<close> when the millisecond count is a
  multiple of 1000 (the division is then exact), the double nearest to the quotient
  otherwise (kept as the millisecond count it came from), and \<open>NaN\<close> for an invalid date.
\<close>

datatype jsnumber = Whole int | Quotient1000 int | NaN

text \<open>
  A relay filter. An entry of \<open>authors\<close> is \<open>None\<close> where the JavaScript array holds
  \<open>undefined\<close>; an optional member is \<open>None\<close> where the object holds \<open>undefined\<close>.
\<close>

record filter =
  kinds :: "nat list"
  authors :: "string option list"
  search :: "string option"
  since :: "jsnumber option"
  until :: "jsnumber option"

datatype request = Get filter | List "filter list"

text \<open>
  What \<open>nip19.decode\<close> does on a string: it returns a type prefix and a payload, or it
  throws; a thrown value is an \<open>Error\<close> object with its message, or any other value.
\<close>

datatype thrown = ErrorObject string | OtherValue

datatype decode_outcome = Decoded string string | Throws thrown

text \<open>
  The library and platform behaviour the component calls and does not define:
  \<open>nip19.decode\<close>, the relay's answers to \<open>get\<close> and \<open>list\<close>, and the engine's parse
  of a date string outside the date-only form (milliseconds, \<open>None\<close> for an invalid date).
\<close>

record host =
  nip19_decode :: "string \<Rightarrow> decode_outcome"
  relay_get :: "filter \<Rightarrow> event option"
  relay_list :: "filter list \<Rightarrow> event list"
  date_parse_other :: "string \<Rightarrow> int option"

text \<open>
  The hook values (\<open>isSearching\<close> to \<open>currentDataLength\<close>), then the effects: toasts
  shown, console lines, \<open>window.location.search\<close>, the relay URLs a connection was
  started to, the requests sent, and the number of \<open>close\<close> calls.

  A JavaScript string is a sequence of UTF-16 code units and may hold a surrogate that is
  not part of a pair. A \<open>string\<close> of the model holds such a string as bytes: each code
  point (a surrogate pair counts as its one code point) as its UTF-8 bytes, and a lone
  surrogate as the three bytes \<open>ED A0..BF 80..BF\<close> that the UTF-8 pattern gives its
  number. Equality, emptiness and ASCII content are those of the JavaScript string.
\<close>

record world =
  isSearching :: bool
  npub :: string
  includeNotesFromFollowedUsers :: bool
  query :: string
  fromDate :: string
  toDate :: string
  events :: "event list"
  currentDataLength :: nat
  toasts :: "toast list"
  console :: "string list"
  location_search :: string
  relay_connects :: "string list"
  requests :: "request list"
  relay_closes :: nat

text \<open>The values the \<open>connect\<close> and \<open>error\<close> callbacks close over at submission.\<close>

record submission =
  decodedNpub :: string
  sub_includeFollowed :: bool
  sub_query :: string
  sub_fromDate :: string
  sub_toDate :: string

definition relay_url :: string where
  "relay_url = ''wss://relay.nostr.band''"

definition INCLUDE_FOLLOWED_USERS_QUERY_PARAM :: string where
  "INCLUDE_FOLLOWED_USERS_QUERY_PARAM = ''includeFollowed''"

section \<open>Operations\<close>

definition toast_show :: "string \<Rightarrow> toast_status \<Rightarrow> world \<Rightarrow> world" where
  "toast_show t st w = w\<lparr>toasts := toasts w @ [\<lparr>title = t, status = st\<rparr>]\<rparr>"

definition console_log :: "string \<Rightarrow> world \<Rightarrow> world" where
  "console_log l w = w\<lparr>console := console w @ [l]\<rparr>"

subsection \<open>\<open>decodeNpub\<close>\<close>

text \<open>
  Returns the payload when the type is \<open>npub\<close>; falls off the end (\<open>undefined\<close>, here
  \<open>None\<close>) otherwise; the catch block shows a toast only for an \<open>Error\<close> instance.
\<close>

definition decodeNpub :: "host \<Rightarrow> string \<Rightarrow> world \<Rightarrow> string option \<times> world" where
  "decodeNpub h s w =
     (case nip19_decode h s of
        Decoded ty data \<Rightarrow> (if ty = ''npub'' then (Some data, w) else (None, w))
      | Throws (ErrorObject msg) \<Rightarrow> (None, toast_show msg error w)
      | Throws OtherValue \<Rightarrow> (None, w))"

subsection \<open>\<open>handleSubmit\<close> and the relay callbacks\<close>

text \<open>
  \<open>handleSubmit\<close> returns the world and, when it gets as far as \<open>relay.connect()\<close>, the
  submission whose callbacks are now registered. \<open>!npub\<close> holds of the empty string
  only; \<open>!decodedNpub\<close> holds of \<open>undefined\<close> and of the empty string.
\<close>

definition handleSubmit :: "host \<Rightarrow> world \<Rightarrow> world \<times> submission option" where
  "handleSubmit h w =
     (if npub w = [] then (toast_show ''npub is required'' warning w, None)
      else
        (case decodeNpub h (npub w) w of
           (None, w1) \<Rightarrow> (w1, None)
         | (Some d, w1) \<Rightarrow>
             (if d = [] then (w1, None)
              else
                (w1\<lparr>isSearching := True, relay_connects := relay_connects w1 @ [relay_url]\<rparr>,
                 Some \<lparr>decodedNpub = d,
                       sub_includeFollowed = includeNotesFromFollowedUsers w,
                       sub_query = query w,
                       sub_fromDate = fromDate w,
                       sub_toDate = toDate w\<rparr>))))"

subsection \<open>Dates\<close>

text \<open>
  \<open>new Date(date).getTime()\<close>. ECMAScript fixes the result for the date-only form
  \<open>YYYY-MM-DD\<close> (what an input of type \<open>date\<close> holds): the string is read as that
  calendar day at 00:00 UTC. Any other string goes to the engine's own parser, which is
  the parameter \<open>date_parse_other\<close>.
\<close>

definition digit_of :: "char \<Rightarrow> int option" where
  "digit_of c =
     (let n = (of_char c :: nat) in if 48 \<le> n \<and> n \<le> 57 then Some (int n - 48) else None)"

fun digits_value :: "int \<Rightarrow> string \<Rightarrow> int option" where
  "digits_value acc [] = Some acc"
| "digits_value acc (c # cs) =
     (case digit_of c of None \<Rightarrow> None | Some v \<Rightarrow> digits_value (10 * acc + v) cs)"

definition is_leap :: "int \<Rightarrow> bool" where
  "is_leap y = (y mod 4 = 0 \<and> (y mod 100 \<noteq> 0 \<or> y mod 400 = 0))"

definition days_in_month :: "int \<Rightarrow> int \<Rightarrow> int" where
  "days_in_month y m =
     (if m = 2 then (if is_leap y then 29 else 28)
      else if m = 4 \<or> m = 6 \<or> m = 9 \<or> m = 11 then 30 else 31)"

definition parse_date_only :: "string \<Rightarrow> (int \<times> int \<times> int) option" where
  "parse_date_only s =
     (if length s = 10 \<and> s ! 4 = CHR ''-'' \<and> s ! 7 = CHR ''-'' then
        (case (digits_value 0 (take 4 s), digits_value 0 (take 2 (drop 5 s)),
               digits_value 0 (drop 8 s)) of
           (Some y, Some m, Some d) \<Rightarrow>
             (if 1 \<le> m \<and> m \<le> 12 \<and> 1 \<le> d \<and> d \<le> days_in_month y m then Some (y, m, d)
              else None)
         | _ \<Rightarrow> None)
      else None)"

text \<open>Days from 1970-01-01 to the given day of the proleptic Gregorian calendar.\<close>

definition days_from_civil :: "int \<Rightarrow> int \<Rightarrow> int \<Rightarrow> int" where
  "days_from_civil y m d =
     (let y' = (if m \<le> 2 then y - 1 else y);
          era = y' div 400;
          yoe = y' - era * 400;
          mp = (m + 9) mod 12;
          doy = (153 * mp + 2) div 5 + d - 1;
          doe = yoe * 365 + yoe div 4 - yoe div 100 + doy
      in era * 146097 + doe - 719468)"

definition Date_getTime :: "host \<Rightarrow> string \<Rightarrow> int option" where
  "Date_getTime h s =
     (case parse_date_only s of
        Some (y, m, d) \<Rightarrow> Some (days_from_civil y m d * 86400000)
      | None \<Rightarrow> date_parse_other h s)"

definition convertDateToUnixTimestamp :: "host \<Rightarrow> string \<Rightarrow> jsnumber" where
  "convertDateToUnixTimestamp h date =
     (case Date_getTime h date of
        None \<Rightarrow> NaN
      | Some ms \<Rightarrow> if ms mod 1000 = 0 then Whole (ms div 1000) else Quotient1000 ms)"

text \<open>
  The reading of the specification, for comparison: the epoch seconds of a calendar day
  at midnight local time, where local time is \<open>off\<close> minutes ahead of UTC at that moment.
\<close>

definition local_midnight_seconds :: "int \<Rightarrow> int \<times> int \<times> int \<Rightarrow> int" where
  "local_midnight_seconds off ymd =
     (case ymd of (y, m, d) \<Rightarrow> days_from_civil y m d * 86400 - off * 60)"

subsection \<open>The \<open>connect\<close> callback\<close>

text \<open>The arrow function \<open>([_, pubkey]) => pubkey\<close>: the element at index 1, or \<open>undefined\<close>.\<close>

fun tag_pubkey :: "string list \<Rightarrow> string option" where
  "tag_pubkey (_ # pubkey # _) = Some pubkey"
| "tag_pubkey _ = None"

text \<open>\<open>contactListEvent?.tags.map(([_, pubkey]) => pubkey) ?? []\<close>\<close>

definition followedAuthorPubkeys :: "event option \<Rightarrow> string option list" where
  "followedAuthorPubkeys contactListEvent =
     (case contactListEvent of None \<Rightarrow> [] | Some e \<Rightarrow> map tag_pubkey (tags e))"

definition contactFilter :: "string \<Rightarrow> filter" where
  "contactFilter d =
     \<lparr>kinds = [3], authors = [Some d], search = None, since = None, until = None\<rparr>"

text \<open>The filter object of \<open>relay.list\<close>; the empty string is falsy.\<close>

definition noteFilter :: "host \<Rightarrow> submission \<Rightarrow> string option list \<Rightarrow> filter" where
  "noteFilter h c followed =
     \<lparr>kinds = [1],
      authors = (if sub_includeFollowed c then followed @ [Some (decodedNpub c)]
                 else [Some (decodedNpub c)]),
      search = (if sub_query c \<noteq> [] \<and> length (sub_query c) > 0 then Some (sub_query c)
                else None),
      since = (if sub_fromDate c \<noteq> [] then Some (convertDateToUnixTimestamp h (sub_fromDate c))
               else None),
      until = (if sub_toDate c \<noteq> [] then Some (convertDateToUnixTimestamp h (sub_toDate c))
               else None)\<rparr>"

text \<open>The contact list fetched for a submission: empty unless the flag was set.\<close>

definition fetched_contacts :: "host \<Rightarrow> submission \<Rightarrow> string option list" where
  "fetched_contacts h c =
     (if sub_includeFollowed c
      then followedAuthorPubkeys (relay_get h (contactFilter (decodedNpub c))) else [])"

text \<open>What the callback does with the events the relay returned.\<close>

definition install :: "event list \<Rightarrow> world \<Rightarrow> world" where
  "install evs w =
     w\<lparr>currentDataLength := min 5 (length evs), events := evs, isSearching := False\<rparr>"

definition on_connect :: "host \<Rightarrow> submission \<Rightarrow> world \<Rightarrow> world" where
  "on_connect h c w =
     (let w1 = console_log (''connected to '' @ relay_url) w;
          w2 = (if sub_includeFollowed c
                then w1\<lparr>requests := requests w1 @ [Get (contactFilter (decodedNpub c))]\<rparr>
                else w1);
          flt = noteFilter h c (fetched_contacts h c);
          evs = relay_list h [flt];
          w3 = w2\<lparr>requests := requests w2 @ [List [flt]]\<rparr>;
          w4 = (if length evs = 0 then toast_show ''no events found'' info w3 else w3);
          w5 = install evs w4
      in w5\<lparr>relay_closes := relay_closes w5 + 1\<rparr>)"

text \<open>The \<open>error\<close> callback of the relay.\<close>

definition on_error :: "world \<Rightarrow> world" where
  "on_error w =
     (console_log (''failed to connect to '' @ relay_url) w)\<lparr>isSearching := False\<rparr>"

subsection \<open>The reveal cursor\<close>

definition updateCurrentDataLength :: "world \<Rightarrow> world" where
  "updateCurrentDataLength w =
     w\<lparr>currentDataLength :=
         (if currentDataLength w + 5 < length (events w) then currentDataLength w + 5
          else length (events w))\<rparr>"

subsection \<open>The query string\<close>

text \<open>
  \<open>URLSearchParams\<close> as the URL standard defines it. The object is a list of name/value
  pairs of scalar-value strings. \<open>toString\<close> takes the UTF-8 bytes of a name or value,
  keeps letters, digits and \<open>*-._\<close>, writes a space as \<open>+\<close> and any other byte as
  \<open>%HH\<close>, and joins \<open>name=value\<close> with \<open>&\<close>. The constructor converts its argument
  to a \<open>USVString\<close>, drops a leading \<open>?\<close>, splits at \<open>&\<close>, skips empty pieces, splits
  each piece at its first \<open>=\<close>, turns \<open>+\<close> into a space, decodes \<open>%HH\<close> and decodes
  the bytes as UTF-8, with U+FFFD for what is not UTF-8.
\<close>

definition unreserved :: "char \<Rightarrow> bool" where
  "unreserved c =
     (let n = (of_char c :: nat)
      in (48 \<le> n \<and> n \<le> 57) \<or> (65 \<le> n \<and> n \<le> 90) \<or> (97 \<le> n \<and> n \<le> 122)
         \<or> n = 42 \<or> n = 45 \<or> n = 46 \<or> n = 95)"

definition hex_digit :: "nat \<Rightarrow> char" where
  "hex_digit n = char_of (if n < 10 then 48 + n else 55 + n)"

definition hex_value :: "char \<Rightarrow> nat option" where
  "hex_value c =
     (let n = (of_char c :: nat)
      in if 48 \<le> n \<and> n \<le> 57 then Some (n - 48)
         else if 65 \<le> n \<and> n \<le> 70 then Some (n - 55)
         else if 97 \<le> n \<and> n \<le> 102 then Some (n - 87)
         else None)"

definition urlencode_byte :: "char \<Rightarrow> string" where
  "urlencode_byte c =
     (if unreserved c then [c]
      else if c = CHR '' '' then ''+''
      else [CHR ''%'', hex_digit (of_char c div 16), hex_digit (of_char c mod 16)])"

definition urlencode :: "string \<Rightarrow> string" where
  "urlencode s = concat (map urlencode_byte s)"

fun percent_decode :: "string \<Rightarrow> string" where
  "percent_decode (c # h # l # cs) =
     (if c = CHR ''%'' then
        (case (hex_value h, hex_value l) of
           (Some a, Some b) \<Rightarrow> char_of (16 * a + b) # percent_decode cs
         | _ \<Rightarrow> c # percent_decode (h # l # cs))
      else c # percent_decode (h # l # cs))"
| "percent_decode (c # cs) = c # percent_decode cs"
| "percent_decode [] = []"

text \<open>
  The UTF-8 decoder of the Encoding standard, on bytes: a well-formed sequence is kept; a
  byte that cannot start a sequence, and a sequence cut short by a byte out of range or by
  the end of the input, becomes U+FFFD (\<open>EF BF BD\<close>), and decoding resumes at the
  offending byte. \<open>utf8_lead\<close> gives, for a lead byte, the ranges of the bytes that
  must follow it.
\<close>

definition replacement_character :: string where
  "replacement_character = [CHR 0xEF, CHR 0xBF, CHR 0xBD]"

definition utf8_lead :: "char \<Rightarrow> (nat \<times> nat) list option" where
  "utf8_lead b =
     (let n = (of_char b :: nat)
      in if 0xC2 \<le> n \<and> n \<le> 0xDF then Some [(0x80, 0xBF)]
         else if n = 0xE0 then Some [(0xA0, 0xBF), (0x80, 0xBF)]
         else if n = 0xED then Some [(0x80, 0x9F), (0x80, 0xBF)]
         else if 0xE1 \<le> n \<and> n \<le> 0xEF then Some [(0x80, 0xBF), (0x80, 0xBF)]
         else if n = 0xF0 then Some [(0x90, 0xBF), (0x80, 0xBF), (0x80, 0xBF)]
         else if 0xF1 \<le> n \<and> n \<le> 0xF3 then Some [(0x80, 0xBF), (0x80, 0xBF), (0x80, 0xBF)]
         else if n = 0xF4 then Some [(0x80, 0x8F), (0x80, 0xBF), (0x80, 0xBF)]
         else None)"

fun cont_run :: "(nat \<times> nat) list \<Rightarrow> string \<Rightarrow> nat" where
  "cont_run [] bs = 0"
| "cont_run (r # rs) [] = 0"
| "cont_run (r # rs) (b # bs) =
     (if fst r \<le> of_char b \<and> of_char b \<le> snd r then Suc (cont_run rs bs) else 0)"

fun utf8_replace :: "string \<Rightarrow> string" where
  "utf8_replace [] = []"
| "utf8_replace (b # bs) =
     (if (of_char b :: nat) < 128 then b # utf8_replace bs
      else
        (case utf8_lead b of
           None \<Rightarrow> replacement_character @ utf8_replace bs
         | Some rs \<Rightarrow>
             (if cont_run rs bs = length rs
              then b # take (length rs) bs @ utf8_replace (drop (length rs) bs)
              else replacement_character @ utf8_replace (drop (cont_run rs bs) bs))))"

text \<open>
  A string is well formed when it holds no lone surrogate: its bytes are UTF-8.
\<close>

fun valid_utf8 :: "string \<Rightarrow> bool" where
  "valid_utf8 [] = True"
| "valid_utf8 (b # bs) =
     (if (of_char b :: nat) < 128 then valid_utf8 bs
      else
        (case utf8_lead b of
           None \<Rightarrow> False
         | Some rs \<Rightarrow> cont_run rs bs = length rs \<and> valid_utf8 (drop (length rs) bs)))"

text \<open>
  The conversion of a JavaScript string to a \<open>USVString\<close>, which every argument of
  \<open>URLSearchParams\<close> undergoes: each lone surrogate becomes U+FFFD.
\<close>

definition surrogate_head :: "string \<Rightarrow> bool" where
  "surrogate_head s =
     (case s of
        a # b # c # _ \<Rightarrow>
          (of_char a :: nat) = 0xED \<and> 0xA0 \<le> (of_char b :: nat) \<and> (of_char b :: nat) \<le> 0xBF
          \<and> 0x80 \<le> (of_char c :: nat) \<and> (of_char c :: nat) \<le> 0xBF
      | _ \<Rightarrow> False)"

fun to_usv :: "string \<Rightarrow> string" where
  "to_usv [] = []"
| "to_usv (a # s) =
     (if surrogate_head (a # s) then replacement_character @ to_usv (drop 2 s)
      else a # to_usv s)"

definition urldecode :: "string \<Rightarrow> string" where
  "urldecode s =
     utf8_replace (percent_decode (map (\<lambda>c. if c = CHR ''+'' then CHR '' '' else c) s))"

fun split_on :: "char \<Rightarrow> string \<Rightarrow> string list" where
  "split_on d [] = [[]]"
| "split_on d (c # cs) =
     (if c = d then [] # split_on d cs
      else (case split_on d cs of [] \<Rightarrow> [[c]] | p # ps \<Rightarrow> (c # p) # ps))"

fun join_with :: "char \<Rightarrow> string list \<Rightarrow> string" where
  "join_with d [] = []"
| "join_with d [p] = p"
| "join_with d (p # q # ps) = p @ d # join_with d (q # ps)"

definition usp_parse_pair :: "string \<Rightarrow> string \<times> string" where
  "usp_parse_pair p =
     (let name = takeWhile (\<lambda>c. c \<noteq> CHR ''='') p;
          val = drop (length name + 1) p
      in (urldecode name, urldecode val))"

definition usp_parse :: "string \<Rightarrow> (string \<times> string) list" where
  "usp_parse init =
     (let init' = to_usv init;
          s = (case init' of [] \<Rightarrow> [] | c # cs \<Rightarrow> if c = CHR ''?'' then cs else init')
      in map usp_parse_pair (filter (\<lambda>p. p \<noteq> []) (split_on CHR ''&'' s)))"

definition usp_toString :: "(string \<times> string) list \<Rightarrow> string" where
  "usp_toString qs =
     join_with CHR ''&'' (map (\<lambda>p. urlencode (fst p) @ CHR ''='' # urlencode (snd p)) qs)"

definition search_of_query :: "string \<Rightarrow> string" where
  "search_of_query q = (if q = [] then [] else CHR ''?'' # q)"

text \<open>
  \<open>get\<close> returns the first value of a name, \<open>set\<close> overwrites the first pair of the
  name and drops its other pairs (or appends a pair), \<open>delete\<close> drops every pair of the
  name. Names and values are converted to \<open>USVString\<close> on the way in.
\<close>

definition usp_get :: "(string \<times> string) list \<Rightarrow> string \<Rightarrow> string option" where
  "usp_get qs name = map_of qs (to_usv name)"

definition usp_delete :: "(string \<times> string) list \<Rightarrow> string \<Rightarrow> (string \<times> string) list" where
  "usp_delete qs name = filter (\<lambda>p. fst p \<noteq> to_usv name) qs"

fun set_pair :: "(string \<times> string) list \<Rightarrow> string \<Rightarrow> string \<Rightarrow> (string \<times> string) list" where
  "set_pair [] k v = [(k, v)]"
| "set_pair (p # qs) k v =
     (if fst p = k then (k, v) # filter (\<lambda>p. fst p \<noteq> k) qs else p # set_pair qs k v)"

definition usp_set :: "(string \<times> string) list \<Rightarrow> string \<Rightarrow> string \<Rightarrow> (string \<times> string) list" where
  "usp_set qs name val = set_pair qs (to_usv name) (to_usv val)"

text \<open>
  \<open>replaceState\<close> with \<open>pathname + "?" + queryParams.toString()\<close>: afterwards
  \<open>location.search\<close> is \<open>?\<close> and the serialised query, or empty when that is empty.
\<close>

definition updateUrl :: "(string \<times> string) list \<Rightarrow> world \<Rightarrow> world" where
  "updateUrl queryParams w =
     w\<lparr>location_search := search_of_query (usp_toString queryParams)\<rparr>"

text \<open>
  The handler a text input gets. The value goes to \<open>URLSearchParams.set\<close>, which
  converts it to a \<open>USVString\<close>, and to the state setter, which keeps it as it is.
\<close>

definition makeOnChangeHandler ::
  "(string \<Rightarrow> world \<Rightarrow> world) \<Rightarrow> string \<Rightarrow> string \<Rightarrow> world \<Rightarrow> world" where
  "makeOnChangeHandler set_field key v w =
     (let queryParams = usp_parse (location_search w);
          queryParams' = (if v \<noteq> [] then usp_set queryParams key v
                          else usp_delete queryParams key)
      in set_field v (updateUrl queryParams' w))"

definition setNpub :: "string \<Rightarrow> world \<Rightarrow> world" where
  "setNpub v w = w\<lparr>npub := v\<rparr>"

definition setQuery :: "string \<Rightarrow> world \<Rightarrow> world" where
  "setQuery v w = w\<lparr>query := v\<rparr>"

definition setFromDate :: "string \<Rightarrow> world \<Rightarrow> world" where
  "setFromDate v w = w\<lparr>fromDate := v\<rparr>"

definition setToDate :: "string \<Rightarrow> world \<Rightarrow> world" where
  "setToDate v w = w\<lparr>toDate := v\<rparr>"

definition updateIncludeFollowedQueryParam :: "bool \<Rightarrow> world \<Rightarrow> world" where
  "updateIncludeFollowedQueryParam includeFollowed w =
     (let queryParams = usp_parse (location_search w);
          queryParams' = (if includeFollowed
                          then usp_set queryParams INCLUDE_FOLLOWED_USERS_QUERY_PARAM ''1''
                          else usp_delete queryParams INCLUDE_FOLLOWED_USERS_QUERY_PARAM)
      in updateUrl queryParams' w)"

text \<open>The \<open>onChange\<close> of the checkbox.\<close>

definition toggleIncludeFollowed :: "world \<Rightarrow> world" where
  "toggleIncludeFollowed w =
     (let prev = includeNotesFromFollowedUsers w
      in (updateIncludeFollowedQueryParam (\<not> prev) w)
           \<lparr>includeNotesFromFollowedUsers := \<not> prev\<rparr>)"

text \<open>The initial hook values of \<open>App\<close>, read from the query of the address bar.\<close>

definition or_empty :: "string option \<Rightarrow> string" where
  "or_empty r = (case r of None \<Rightarrow> [] | Some v \<Rightarrow> v)"

definition App_init :: "string \<Rightarrow> world" where
  "App_init location_search0 =
     (let queryParams = usp_parse location_search0
      in \<lparr>isSearching = False,
          npub = or_empty (usp_get queryParams ''npub''),
          includeNotesFromFollowedUsers =
            (usp_get queryParams INCLUDE_FOLLOWED_USERS_QUERY_PARAM = Some ''1''),
          query = or_empty (usp_get queryParams ''query''),
          fromDate = or_empty (usp_get queryParams ''fromDate''),
          toDate = or_empty (usp_get queryParams ''toDate''),
          events = [],
          currentDataLength = 0,
          toasts = [],
          console = [],
          location_search = location_search0,
          relay_connects = [],
          requests = [],
          relay_closes = 0\<rparr>)"

section \<open>Example inputs\<close>

text \<open>
  A decoder, a relay and a page address to run the handlers on: one identifier of each
  kind of outcome, a contact list that names the author's own key and has one tag
  without a second element, and twelve notes.
\<close>

definition example_decode :: "string \<Rightarrow> decode_outcome" where
  "example_decode s =
     (if s = ''npub1alice'' then Decoded ''npub'' ''a11ce''
      else if s = ''note1xyz'' then Decoded ''note'' ''e0e0''
      else if s = ''raw'' then Throws OtherValue
      else Throws (ErrorObject ''Unknown letter''))"

definition example_contact_list :: event where
  "example_contact_list =
     \<lparr>event_id = ''c0'', content = [], created_at = 1700000000,
      tags = [[''p'', ''b0b''], [''p'', ''a11ce''], [''p'']]\<rparr>"

definition example_note :: event where
  "example_note = \<lparr>event_id = ''e1'', content = ''gm'', created_at = 1700000100, tags = []\<rparr>"

definition example_host :: host where
  "example_host =
     \<lparr>nip19_decode = example_decode,
      relay_get = (\<lambda>f. if kinds f = [3] then Some example_contact_list else None),
      relay_list = (\<lambda>fs. replicate 12 example_note),
      date_parse_other = (\<lambda>s. None)\<rparr>"

definition example_world :: world where
  "example_world =
     App_init ''?npub=npub1alice&includeFollowed=1&fromDate=1970-01-02''"

definition example_world_plain :: world where
  "example_world_plain = App_init ''?npub=npub1alice''"

text \<open>The string of the one code unit U+D800, and the string of U+00E9.\<close>

definition lone_surrogate :: string where
  "lone_surrogate = [CHR 0xED, CHR 0xA0, CHR 0x80]"

definition e_acute :: string where
  "e_acute = [CHR 0xC3, CHR 0xA9]"

definition example_submission :: submission where
  "example_submission =
     \<lparr>decodedNpub = ''a11ce'', sub_includeFollowed = True, sub_query = [],
      sub_fromDate = ''1970-01-02'', sub_toDate = []\<rparr>"

definition example_submission_plain :: submission where
  "example_submission_plain =
     \<lparr>decodedNpub = ''a11ce'', sub_includeFollowed = False, sub_query = [],
      sub_fromDate = [], sub_toDate = []\<rparr>"

section \<open>The example inputs, evaluated\<close>

lemma to_usv_keys:
  "to_usv ''npub'' = ''npub''" "to_usv ''query'' = ''query''"
  "to_usv ''fromDate'' = ''fromDate''" "to_usv ''toDate'' = ''toDate''"
  "to_usv INCLUDE_FOLLOWED_USERS_QUERY_PARAM = INCLUDE_FOLLOWED_USERS_QUERY_PARAM"
  "to_usv ''1'' = ''1''"
  by code_simp+

lemma valid_keys:
  "valid_utf8 ''npub''" "valid_utf8 ''query''" "valid_utf8 ''fromDate''" "valid_utf8 ''toDate''"
  "valid_utf8 INCLUDE_FOLLOWED_USERS_QUERY_PARAM" "valid_utf8 ''1''"
  by code_simp+

lemma example_queries:
  "usp_parse ''?npub=npub1alice&includeFollowed=1&fromDate=1970-01-02''
     = [(''npub'', ''npub1alice''), (''includeFollowed'', ''1''), (''fromDate'', ''1970-01-02'')]"
  "usp_parse ''?npub=npub1alice'' = [(''npub'', ''npub1alice'')]"
  "usp_parse [] = []"
  by code_simp+

lemma example_world_fields:
  "npub example_world = ''npub1alice''" "includeNotesFromFollowedUsers example_world"
  "query example_world = []" "fromDate example_world = ''1970-01-02''"
  "toDate example_world = []" "requests example_world = []"
  "relay_connects example_world = []" "events example_world = []"
  by (simp_all add: example_world_def App_init_def Let_def example_queries usp_get_def
        to_usv_keys or_empty_def del: to_usv.simps)
     (simp_all add: INCLUDE_FOLLOWED_USERS_QUERY_PARAM_def)

lemma example_world_plain_fields:
  "npub example_world_plain = ''npub1alice''"
  "\<not> includeNotesFromFollowedUsers example_world_plain"
  "query example_world_plain = []" "fromDate example_world_plain = []"
  "toDate example_world_plain = []" "requests example_world_plain = []"
  "relay_connects example_world_plain = []"
  by (simp_all add: example_world_plain_def App_init_def Let_def example_queries usp_get_def
        to_usv_keys or_empty_def del: to_usv.simps)

lemma empty_world_fields:
  "npub (App_init []) = []" "relay_connects (App_init []) = []" "requests (App_init []) = []"
  by (simp_all add: App_init_def Let_def example_queries usp_get_def or_empty_def
        to_usv_keys del: to_usv.simps)

section \<open>Properties of the reveal cursor\<close>

lemma updateCurrentDataLength_events:
  "events ((updateCurrentDataLength ^^ k) w) = events w"
  by (induction k) (simp_all add: updateCurrentDataLength_def)

lemma updateCurrentDataLength_min:
  "currentDataLength (updateCurrentDataLength w) =
     min (currentDataLength w + 5) (length (events w))"
  by (simp add: updateCurrentDataLength_def min_def)

lemma on_connect_installs:
  "events (on_connect h c w) = relay_list h [noteFilter h c (fetched_contacts h c)]"
  "\<not> isSearching (on_connect h c w)"
  "currentDataLength (on_connect h c w)
     = min 5 (length (relay_list h [noteFilter h c (fetched_contacts h c)]))"
  by (simp_all add: on_connect_def Let_def install_def toast_show_def console_log_def)

lemma reveal_from_five:
  assumes "currentDataLength v = min 5 (length (events v))"
  shows "currentDataLength ((updateCurrentDataLength ^^ k) v)
           = min (5 * (k + 1)) (length (events v))"
proof (induction k)
  case 0
  show ?case using assms by simp
next
  case (Suc k)
  then show ?case
    by (simp add: updateCurrentDataLength_min updateCurrentDataLength_events min_def)
qed

lemma reveal_closed_form:
  "currentDataLength ((updateCurrentDataLength ^^ k) (install evs w)) =
     min (5 * (k + 1)) (length evs)"
  using reveal_from_five [of "install evs w" k] by (simp add: install_def)

text \<open>
  Claim C3. Installing a result set of length \<open>n\<close> puts the cursor at \<open>min 5 n\<close>; each
  \<open>updateCurrentDataLength\<close> puts it at \<open>min (cursor + 5) n\<close>; after \<open>k\<close> such calls
  following the installation the cursor has not decreased with the last call, is at most
  \<open>n\<close>, and is exactly \<open>n\<close> once \<open>k\<close> has reached the ceiling of \<open>n / 5\<close>; a call with the
  cursor at \<open>n\<close> changes nothing. The same holds from the world the \<open>connect\<close> callback
  leaves, with \<open>n\<close> the number of events it installed.
\<close>

theorem reveal_cursor:
  fixes evs :: "event list" and w v :: world and k :: nat and h :: host and s :: submission
  defines "c \<equiv> \<lambda>j. currentDataLength ((updateCurrentDataLength ^^ j) (install evs w))"
  defines "r \<equiv> \<lambda>j. currentDataLength ((updateCurrentDataLength ^^ j) (on_connect h s w))"
  defines "n \<equiv> length (events (on_connect h s w))"
  shows "currentDataLength (install evs w) = min 5 (length evs)
       \<and> currentDataLength (updateCurrentDataLength v)
           = min (currentDataLength v + 5) (length (events v))
       \<and> c 0 = min 5 (length evs)
       \<and> c k \<le> c (Suc k)
       \<and> c k \<le> length evs
       \<and> ((length evs + 4) div 5 \<le> k \<longrightarrow> c k = length evs)
       \<and> (currentDataLength v = length (events v) \<longrightarrow> updateCurrentDataLength v = v)
       \<and> r 0 = min 5 n \<and> r k \<le> r (Suc k) \<and> r k \<le> n
       \<and> ((n + 4) div 5 \<le> k \<longrightarrow> r k = n)"
proof -
  have cf: "c j = min (5 * (j + 1)) (length evs)" for j
    unfolding c_def by (rule reveal_closed_form)
  have "currentDataLength (on_connect h s w) = min 5 (length (events (on_connect h s w)))"
    by (simp add: on_connect_installs)
  then have rf: "r j = min (5 * (j + 1)) n" for j
    unfolding r_def n_def by (rule reveal_from_five)
  have idem: "currentDataLength v = length (events v) \<longrightarrow> updateCurrentDataLength v = v"
    by (simp add: updateCurrentDataLength_def)
  have reach: "(length evs + 4) div 5 \<le> k \<longrightarrow> c k = length evs"
    unfolding cf by (auto simp: min_def)
  have reach': "(n + 4) div 5 \<le> k \<longrightarrow> r k = n"
    unfolding rf by (auto simp: min_def)
  have mono: "c k \<le> c (Suc k)" "r k \<le> r (Suc k)"
    unfolding cf rf by (simp_all add: min_def)
  have bound: "c k \<le> length evs" "r k \<le> n"
    unfolding cf rf by simp_all
  have start: "c 0 = min 5 (length evs)" "r 0 = min 5 n"
    unfolding cf rf by simp_all
  have inst: "currentDataLength (install evs w) = min 5 (length evs)"
    by (simp add: install_def)
  show ?thesis
    using idem reach reach' mono bound start inst updateCurrentDataLength_min [of v]
    by blast
qed

theorem reveal_cursor_witness:
  "(length (replicate 12 example_note) + 4) div 5 \<le> (3::nat)
   \<and> currentDataLength
       ((updateCurrentDataLength ^^ 3) (install (replicate 12 example_note) example_world)) = 12
   \<and> currentDataLength (install [] example_world) = length (events (install [] example_world))
   \<and> updateCurrentDataLength (install [] example_world) = install [] example_world
   \<and> length (events (on_connect example_host example_submission example_world)) = 12
   \<and> currentDataLength
       ((updateCurrentDataLength ^^ 3) (on_connect example_host example_submission example_world))
       = 12"
proof -
  have e: "events (on_connect example_host example_submission example_world)
             = replicate 12 example_note"
    by (simp add: on_connect_installs(1)) (simp add: example_host_def)
  show ?thesis
    using reveal_cursor [of "replicate 12 example_note" example_world "install [] example_world" 3
            example_host example_submission] e
    by (simp add: install_def)
qed

section \<open>Properties of a submission\<close>

lemma handleSubmit_Some:
  assumes "handleSubmit h w = (w1, Some c)"
  shows "decodeNpub h (npub w) w = (Some (decodedNpub c), w)"
    and "sub_includeFollowed c = includeNotesFromFollowedUsers w"
    and "sub_query c = query w" and "sub_fromDate c = fromDate w" and "sub_toDate c = toDate w"
    and "decodedNpub c \<noteq> []"
  using assms
  by (auto simp: handleSubmit_def decodeNpub_def
           split: if_splits decode_outcome.splits thrown.splits)

lemma requests_on_connect:
  "requests (on_connect h c w) =
     requests w @ (if sub_includeFollowed c then [Get (contactFilter (decodedNpub c))] else [])
       @ [List [noteFilter h c (fetched_contacts h c)]]"
  by (simp add: on_connect_def Let_def console_log_def toast_show_def install_def)

lemma authors_noteFilter:
  "authors (noteFilter h c followed) =
     (if sub_includeFollowed c then followed @ [Some (decodedNpub c)]
      else [Some (decodedNpub c)])"
  by (simp add: noteFilter_def)

lemma example_handleSubmit:
  "handleSubmit example_host example_world
     = (example_world\<lparr>isSearching := True, relay_connects := [relay_url]\<rparr>,
        Some example_submission)"
  by (simp add: handleSubmit_def decodeNpub_def example_host_def example_decode_def
        example_world_fields example_submission_def)

lemma example_handleSubmit_plain:
  "handleSubmit example_host example_world_plain
     = (example_world_plain\<lparr>isSearching := True, relay_connects := [relay_url]\<rparr>,
        Some example_submission_plain)"
  by (simp add: handleSubmit_def decodeNpub_def example_host_def example_decode_def
        example_world_plain_fields example_submission_plain_def)

lemma example_fetched_contacts:
  "fetched_contacts example_host example_submission = [Some ''b0b'', Some ''a11ce'', None]"
  by (simp add: fetched_contacts_def example_submission_def example_host_def
        contactFilter_def followedAuthorPubkeys_def example_contact_list_def)

lemma example_authors:
  "authors (noteFilter example_host example_submission
              (fetched_contacts example_host example_submission))
     = [Some ''b0b'', Some ''a11ce'', None, Some ''a11ce'']"
  by (simp add: example_fetched_contacts authors_noteFilter)
     (simp add: example_submission_def)

text \<open>
  Claim C1. For a submission that reaches the relay, the \<open>authors\<close> of the note query
  contain the decoded author key; with the flag set they also contain every key extracted
  from the contact list, and the contact-list request precedes the note query; with the
  flag clear they are the decoded author key alone, and the note query is the only request.
\<close>

theorem main_query_authors:
  assumes "handleSubmit h w = (w1, Some c)"
  shows "fst (decodeNpub h (npub w) w) = Some (decodedNpub c)
       \<and> Some (decodedNpub c) \<in> set (authors (noteFilter h c (fetched_contacts h c)))
       \<and> (includeNotesFromFollowedUsers w \<longrightarrow>
            set (followedAuthorPubkeys (relay_get h (contactFilter (decodedNpub c))))
              \<subseteq> set (authors (noteFilter h c (fetched_contacts h c)))
            \<and> requests (on_connect h c w2)
                = requests w2 @ [Get (contactFilter (decodedNpub c)),
                                 List [noteFilter h c (fetched_contacts h c)]])
       \<and> (\<not> includeNotesFromFollowedUsers w \<longrightarrow>
            authors (noteFilter h c (fetched_contacts h c)) = [Some (decodedNpub c)]
            \<and> requests (on_connect h c w2)
                = requests w2 @ [List [noteFilter h c (fetched_contacts h c)]])"
  using handleSubmit_Some(1,2) [OF assms]
  by (auto simp: requests_on_connect authors_noteFilter fetched_contacts_def)

theorem main_query_authors_witness:
  "handleSubmit example_host example_world
     = (example_world\<lparr>isSearching := True, relay_connects := [relay_url]\<rparr>,
        Some example_submission)
   \<and> includeNotesFromFollowedUsers example_world
   \<and> authors (noteFilter example_host example_submission
                 (fetched_contacts example_host example_submission))
       = [Some ''b0b'', Some ''a11ce'', None, Some ''a11ce'']
   \<and> requests (on_connect example_host example_submission example_world)
       = [Get (contactFilter ''a11ce''),
          List [noteFilter example_host example_submission
                  (fetched_contacts example_host example_submission)]]
   \<and> handleSubmit example_host example_world_plain
     = (example_world_plain\<lparr>isSearching := True, relay_connects := [relay_url]\<rparr>,
        Some example_submission_plain)
   \<and> \<not> includeNotesFromFollowedUsers example_world_plain
   \<and> authors (noteFilter example_host example_submission_plain
                 (fetched_contacts example_host example_submission_plain))
       = [Some ''a11ce'']
   \<and> requests (on_connect example_host example_submission_plain example_world_plain)
       = [List [noteFilter example_host example_submission_plain
                  (fetched_contacts example_host example_submission_plain)]]"
proof -
  have i: "includeNotesFromFollowedUsers example_world"
          "\<not> includeNotesFromFollowedUsers example_world_plain"
    by (simp_all add: example_world_fields example_world_plain_fields)
  have r: "requests example_world = []" "requests example_world_plain = []"
    by (simp_all add: example_world_fields example_world_plain_fields)
  have d: "decodedNpub example_submission = ''a11ce''"
          "decodedNpub example_submission_plain = ''a11ce''"
    by (simp_all add: example_submission_def example_submission_plain_def)
  show ?thesis
    using main_query_authors [OF example_handleSubmit, of example_world]
      main_query_authors [OF example_handleSubmit_plain, of example_world_plain]
      i r d example_authors example_handleSubmit example_handleSubmit_plain
    by simp
qed

text \<open>
  Claim C2. When \<open>nip19.decode\<close> throws an \<open>Error\<close>, \<open>decodeNpub\<close> returns nothing and
  shows one error toast whose title is the message of the \<open>Error\<close>, and \<open>handleSubmit\<close>
  stops there with no other change; when \<open>nip19.decode\<close> returns a type other than
  \<open>npub\<close>, \<open>decodeNpub\<close> returns nothing and shows no toast, and \<open>handleSubmit\<close> stops
  with the world as it was.
\<close>

theorem decode_asymmetry:
  "(nip19_decode h s = Throws (ErrorObject msg) \<longrightarrow>
      decodeNpub h s w = (None, toast_show msg error w)
      \<and> toasts (toast_show msg error w) = toasts w @ [\<lparr>title = msg, status = error\<rparr>]
      \<and> (npub w = s \<and> s \<noteq> [] \<longrightarrow> handleSubmit h w = (toast_show msg error w, None)))
   \<and> (nip19_decode h s = Decoded ty data \<and> ty \<noteq> ''npub'' \<longrightarrow>
      decodeNpub h s w = (None, w)
      \<and> (npub w = s \<and> s \<noteq> [] \<longrightarrow> handleSubmit h w = (w, None)))"
  by (simp add: decodeNpub_def handleSubmit_def toast_show_def)

theorem decode_asymmetry_witness:
  "nip19_decode example_host ''npub1?'' = Throws (ErrorObject ''Unknown letter'')
   \<and> npub (setNpub ''npub1?'' example_world) = ''npub1?''
   \<and> handleSubmit example_host (setNpub ''npub1?'' example_world)
       = (toast_show ''Unknown letter'' error (setNpub ''npub1?'' example_world), None)
   \<and> nip19_decode example_host ''note1xyz'' = Decoded ''note'' ''e0e0''
   \<and> npub (setNpub ''note1xyz'' example_world) = ''note1xyz''
   \<and> handleSubmit example_host (setNpub ''note1xyz'' example_world)
       = (setNpub ''note1xyz'' example_world, None)"
proof -
  have t: "nip19_decode example_host ''npub1?'' = Throws (ErrorObject ''Unknown letter'')"
    by (simp add: example_host_def example_decode_def)
  have d: "nip19_decode example_host ''note1xyz'' = Decoded ''note'' ''e0e0''"
    by (simp add: example_host_def example_decode_def)
  have n: "npub (setNpub ''npub1?'' example_world) = ''npub1?''"
          "npub (setNpub ''note1xyz'' example_world) = ''note1xyz''"
    by (simp_all add: setNpub_def)
  show ?thesis
    using t d n
      decode_asymmetry [of example_host "''npub1?''" "''Unknown letter''"
                           "setNpub ''npub1?'' example_world" "''note''" "''e0e0''"]
      decode_asymmetry [of example_host "''note1xyz''" "''Unknown letter''"
                           "setNpub ''note1xyz'' example_world" "''note''" "''e0e0''"]
    by simp
qed

text \<open>
  Claim C10. When \<open>nip19.decode\<close> throws a value that is not an \<open>Error\<close>, \<open>decodeNpub\<close>
  returns nothing and shows no toast, and \<open>handleSubmit\<close> stops with the world as it was,
  as it does for a type other than \<open>npub\<close>.
\<close>

theorem non_error_throw_is_silent:
  assumes "nip19_decode h s = Throws OtherValue"
  shows "decodeNpub h s w = (None, w)
       \<and> (npub w = s \<and> s \<noteq> [] \<longrightarrow> handleSubmit h w = (w, None))"
  using assms by (simp add: decodeNpub_def handleSubmit_def)

theorem non_error_throw_is_silent_witness:
  "nip19_decode example_host ''raw'' = Throws OtherValue
   \<and> decodeNpub example_host ''raw'' (setNpub ''raw'' example_world)
       = (None, setNpub ''raw'' example_world)
   \<and> npub (setNpub ''raw'' example_world) = ''raw''
   \<and> handleSubmit example_host (setNpub ''raw'' example_world)
       = (setNpub ''raw'' example_world, None)"
proof -
  have t: "nip19_decode example_host ''raw'' = Throws OtherValue"
    by (simp add: example_host_def example_decode_def)
  have n: "npub (setNpub ''raw'' example_world) = ''raw''"
    by (simp add: setNpub_def)
  show ?thesis
    using t n non_error_throw_is_silent [OF t, of "setNpub ''raw'' example_world"] by simp
qed

text \<open>
  Claim C9. With an empty \<open>npub\<close> field, \<open>handleSubmit\<close> shows the warning toast
  \<open>npub is required\<close> and returns: no callback is registered, no connection is started,
  no request is sent, and the events, the cursor and the busy flag are as before.
\<close>

theorem empty_npub_aborts:
  assumes "npub w = []"
  shows "handleSubmit h w = (toast_show ''npub is required'' warning w, None)
       \<and> toast_show ''npub is required'' warning w
           = w\<lparr>toasts := toasts w @ [\<lparr>title = ''npub is required'', status = warning\<rparr>]\<rparr>
       \<and> relay_connects (fst (handleSubmit h w)) = relay_connects w
       \<and> requests (fst (handleSubmit h w)) = requests w
       \<and> events (fst (handleSubmit h w)) = events w
       \<and> currentDataLength (fst (handleSubmit h w)) = currentDataLength w
       \<and> isSearching (fst (handleSubmit h w)) = isSearching w"
  using assms by (simp add: handleSubmit_def toast_show_def)

theorem empty_npub_aborts_witness:
  "npub (App_init []) = []
   \<and> handleSubmit example_host (App_init [])
       = (toast_show ''npub is required'' warning (App_init []), None)
   \<and> relay_connects (fst (handleSubmit example_host (App_init []))) = []
   \<and> requests (fst (handleSubmit example_host (App_init []))) = []"
proof -
  have e: "npub (App_init []) = []"
    by (rule empty_world_fields)
  have r: "relay_connects (App_init []) = []" "requests (App_init []) = []"
    by (rule empty_world_fields)+
  show ?thesis
    using e r empty_npub_aborts [OF e, of example_host] by simp
qed

text \<open>
  Claim C8. The \<open>error\<close> callback of the relay writes a console line and clears the busy
  flag; the events, the cursor, the form fields, the toasts and the requests are as before.
\<close>

theorem connection_failure_frame:
  "on_error w = w\<lparr>isSearching := False,
                  console := console w @ [''failed to connect to '' @ relay_url]\<rparr>
   \<and> \<not> isSearching (on_error w)
   \<and> events (on_error w) = events w
   \<and> currentDataLength (on_error w) = currentDataLength w
   \<and> toasts (on_error w) = toasts w
   \<and> requests (on_error w) = requests w"
  by (simp add: on_error_def console_log_def)

section \<open>Properties of the query string\<close>

lemma cont_run_le: "cont_run rs bs \<le> length rs" "cont_run rs bs \<le> length bs"
  by (induction rs bs rule: cont_run.induct) auto

lemma cont_run_full_length: "cont_run rs bs = length rs \<Longrightarrow> length rs \<le> length bs"
  using cont_run_le(2) [of rs bs] by simp

lemma cont_run_prefix:
  "cont_run rs bs = length rs \<Longrightarrow> cont_run rs (take (length rs) bs @ xs) = length rs"
  by (induction rs bs rule: cont_run.induct) (auto split: if_splits)

lemma valid_utf8_replace: "valid_utf8 s \<Longrightarrow> utf8_replace s = s"
proof (induction s rule: utf8_replace.induct)
  case 1
  show ?case by simp
next
  case (2 b bs)
  show ?case
  proof (cases "(of_char b :: nat) < 128")
    case True
    with 2 show ?thesis by simp
  next
    case hi: False
    then obtain rs where rs: "utf8_lead b = Some rs" "cont_run rs bs = length rs"
      "valid_utf8 (drop (length rs) bs)"
      using 2(5) by (auto split: option.splits)
    have "utf8_replace (drop (length rs) bs) = drop (length rs) bs"
      using 2(3) [OF hi rs(1) rs(2)] rs(3) .
    then show ?thesis
      using hi rs by simp
  qed
qed

lemma valid_replacement: "valid_utf8 s \<Longrightarrow> valid_utf8 (replacement_character @ s)"
  by (simp add: replacement_character_def utf8_lead_def)

lemma utf8_replace_valid: "valid_utf8 (utf8_replace s)"
proof (induction s rule: utf8_replace.induct)
  case 1
  show ?case by simp
next
  case (2 b bs)
  show ?case
  proof (cases "(of_char b :: nat) < 128")
    case True
    with 2 show ?thesis by simp
  next
    case hi: False
    show ?thesis
    proof (cases "utf8_lead b")
      case None
      with hi 2 show ?thesis by (simp add: valid_replacement)
    next
      case (Some rs)
      show ?thesis
      proof (cases "cont_run rs bs = length rs")
        case True
        have ih: "valid_utf8 (utf8_replace (drop (length rs) bs))"
          using 2(3) [OF hi Some True] .
        have len: "length rs \<le> length bs"
          using True by (rule cont_run_full_length)
        have "valid_utf8 (b # take (length rs) bs @ utf8_replace (drop (length rs) bs))"
          using hi Some ih len cont_run_prefix [OF True] by simp
        then show ?thesis
          using hi Some True by simp
      next
        case False
        have "valid_utf8 (utf8_replace (drop (cont_run rs bs) bs))"
          using 2(4) [OF hi Some False] .
        then show ?thesis
          using hi Some False by (simp add: valid_replacement)
      qed
    qed
  qed
qed


lemma to_usv_other: "(of_char a :: nat) \<noteq> 0xED \<Longrightarrow> to_usv (a # s) = a # to_usv s"
  by (simp add: surrogate_head_def split: list.splits)

lemma to_usv_skip:
  "\<forall>c \<in> set pre. (of_char c :: nat) \<noteq> 0xED \<Longrightarrow> to_usv (pre @ s) = pre @ to_usv s"
  by (induction pre) (simp_all add: to_usv_other del: to_usv.simps(2))

lemma to_usv_plain: "\<forall>c \<in> set s. (of_char c :: nat) \<noteq> 0xED \<Longrightarrow> to_usv s = s"
  using to_usv_skip [of s "[]"] by simp

lemma utf8_lead_ranges:
  "utf8_lead b = Some rs \<Longrightarrow> \<forall>r \<in> set rs. 128 \<le> fst r \<and> snd r \<le> 191"
  by (auto simp: utf8_lead_def Let_def split: if_splits)

lemma utf8_lead_ED:
  "utf8_lead b = Some rs \<Longrightarrow> (of_char b :: nat) = 0xED \<Longrightarrow> rs = [(0x80, 0x9F), (0x80, 0xBF)]"
  by (auto simp: utf8_lead_def Let_def split: if_splits)

lemma cont_run_bytes:
  "cont_run rs bs = length rs \<Longrightarrow> \<forall>r \<in> set rs. 128 \<le> fst r \<and> snd r \<le> 191 \<Longrightarrow>
     \<forall>c \<in> set (take (length rs) bs). 128 \<le> (of_char c :: nat) \<and> (of_char c :: nat) \<le> 191"
  by (induction rs bs rule: cont_run.induct) (auto split: if_splits)

lemma valid_lead_no_surrogate:
  assumes "utf8_lead b = Some rs" and "cont_run rs bs = length rs"
  shows "\<not> surrogate_head (b # bs)"
proof (cases "(of_char b :: nat) = 0xED")
  case True
  then have rs: "rs = [(0x80, 0x9F), (0x80, 0xBF)]"
    using assms(1) by (rule utf8_lead_ED [rotated])
  show ?thesis
    using assms(2) unfolding rs
    by (cases bs) (auto simp: surrogate_head_def split: list.splits if_splits)
next
  case False
  then show ?thesis
    by (simp add: surrogate_head_def split: list.splits)
qed

lemma valid_to_usv: "valid_utf8 s \<Longrightarrow> to_usv s = s"
proof (induction s rule: valid_utf8.induct)
  case 1
  show ?case by simp
next
  case (2 b bs)
  show ?case
  proof (cases "(of_char b :: nat) < 128")
    case True
    with 2 show ?thesis by (simp add: to_usv_other del: to_usv.simps(2))
  next
    case hi: False
    then obtain rs where rs: "utf8_lead b = Some rs" "cont_run rs bs = length rs"
      "valid_utf8 (drop (length rs) bs)"
      using 2(3) by (auto split: option.splits)
    have ih: "to_usv (drop (length rs) bs) = drop (length rs) bs"
      using 2(2) [OF hi rs(1)] rs(3) by simp
    have "\<forall>c \<in> set (take (length rs) bs). (of_char c :: nat) \<noteq> 0xED"
      using cont_run_bytes [OF rs(2) utf8_lead_ranges [OF rs(1)]] by auto
    then have "to_usv (take (length rs) bs @ drop (length rs) bs)
                 = take (length rs) bs @ to_usv (drop (length rs) bs)"
      by (rule to_usv_skip)
    then have "to_usv bs = bs"
      using ih by simp
    then show ?thesis
      using valid_lead_no_surrogate [OF rs(1) rs(2)] by simp
  qed
qed

lemma percent_decode_other:
  "c \<noteq> CHR ''%'' \<Longrightarrow> percent_decode (c # cs) = c # percent_decode cs"
  by (cases "(c # cs)" rule: percent_decode.cases) simp_all

lemma hex_value_digit: "n < 16 \<Longrightarrow> hex_value (hex_digit n) = Some n"
  by (simp add: hex_value_def hex_digit_def Let_def)

lemma unreserved_not_special:
  "unreserved c \<Longrightarrow> c \<noteq> CHR ''%'' \<and> c \<noteq> CHR ''+'' \<and> c \<noteq> CHR ''&'' \<and> c \<noteq> CHR ''=''"
  by (auto simp: unreserved_def)

lemma unreserved_ascii: "unreserved c \<Longrightarrow> (of_char c :: nat) < 128"
  by (auto simp: unreserved_def Let_def)

lemma of_char_hex_digit:
  "n < 16 \<Longrightarrow> (of_char (hex_digit n) :: nat) = (if n < 10 then 48 + n else 55 + n)"
  by (simp add: hex_digit_def)

lemma hex_digit_not_special:
  assumes "n < 16"
  shows "hex_digit n \<noteq> CHR ''+''" and "hex_digit n \<noteq> CHR ''&''" and "hex_digit n \<noteq> CHR ''=''"
proof -
  have "(of_char (hex_digit n) :: nat) \<noteq> 43 \<and> (of_char (hex_digit n) :: nat) \<noteq> 38
        \<and> (of_char (hex_digit n) :: nat) \<noteq> 61"
    using assms by (simp add: of_char_hex_digit)
  then show "hex_digit n \<noteq> CHR ''+''" and "hex_digit n \<noteq> CHR ''&''"
    and "hex_digit n \<noteq> CHR ''=''"
    by auto
qed

lemma nibbles_less: "(of_char c :: nat) div 16 < 16" "(of_char c :: nat) mod 16 < 16"
proof -
  have "(of_char c :: nat) < 16 * 16"
    using nat_of_char_less_256 [of c] by simp
  then show "(of_char c :: nat) div 16 < 16"
    by (simp only: less_mult_imp_div_less)
  show "(of_char c :: nat) mod 16 < 16" by simp
qed

lemma urlencode_byte_clean:
  "CHR ''&'' \<notin> set (urlencode_byte c)" "CHR ''='' \<notin> set (urlencode_byte c)"
  using unreserved_not_special [of c] hex_digit_not_special [OF nibbles_less(1), of c]
    hex_digit_not_special [OF nibbles_less(2), of c]
  by (auto simp: urlencode_byte_def)

lemma urlencode_clean:
  "CHR ''&'' \<notin> set (urlencode s)" "CHR ''='' \<notin> set (urlencode s)"
  by (auto simp: urlencode_def urlencode_byte_clean)

lemma hex_digit_ascii: "n < 16 \<Longrightarrow> (of_char (hex_digit n) :: nat) < 128"
  by (simp add: of_char_hex_digit)

lemma urlencode_byte_ascii: "\<forall>x \<in> set (urlencode_byte c). (of_char x :: nat) < 128"
  using unreserved_ascii [of c] hex_digit_ascii [OF nibbles_less(1), of c]
    hex_digit_ascii [OF nibbles_less(2), of c]
  by (auto simp: urlencode_byte_def)

lemma urlencode_ascii: "\<forall>x \<in> set (urlencode s). (of_char x :: nat) < 128"
  using urlencode_byte_ascii by (auto simp: urlencode_def)

lemma join_with_set: "set (join_with d ps) \<subseteq> insert d (\<Union>p \<in> set ps. set p)"
  by (induction d ps rule: join_with.induct) auto

lemma toString_ascii: "\<forall>x \<in> set (usp_toString qs). (of_char x :: nat) < 128"
proof
  fix x assume "x \<in> set (usp_toString qs)"
  then have "x \<in> insert CHR ''&''
      (\<Union>p \<in> set (map (\<lambda>p. urlencode (fst p) @ CHR ''='' # urlencode (snd p)) qs). set p)"
    using join_with_set unfolding usp_toString_def by blast
  then have "x = CHR ''&'' \<or> x = CHR ''='' \<or> (\<exists>s. x \<in> set (urlencode s))"
    by (auto split: if_splits)
  then show "(of_char x :: nat) < 128"
    using urlencode_ascii by auto
qed

lemma search_ascii: "\<forall>x \<in> set (search_of_query (usp_toString qs)). (of_char x :: nat) < 128"
  using toString_ascii [of qs] by (auto simp: search_of_query_def)

lemma to_usv_search: "to_usv (search_of_query (usp_toString qs)) = search_of_query (usp_toString qs)"
proof (rule to_usv_plain, rule ballI)
  fix c assume "c \<in> set (search_of_query (usp_toString qs))"
  then have "(of_char c :: nat) < 128"
    using search_ascii by blast
  then show "(of_char c :: nat) \<noteq> 0xED" by simp
qed

lemma percent_decode_byte:
  "percent_decode (map (\<lambda>c. if c = CHR ''+'' then CHR '' '' else c) (urlencode_byte c) @ xs)
     = c # percent_decode xs"
proof (cases "unreserved c")
  case True
  then show ?thesis
    using unreserved_not_special [of c]
    by (simp add: urlencode_byte_def percent_decode_other)
next
  case False
  show ?thesis
  proof (cases "c = CHR '' ''")
    case True
    then show ?thesis
      using False by (simp add: urlencode_byte_def percent_decode_other)
  next
    case sp: False
    have "percent_decode (CHR ''%'' # hex_digit (of_char c div 16)
             # hex_digit (of_char c mod 16) # xs) = c # percent_decode xs"
      by (simp add: hex_value_digit nibbles_less)
    then show ?thesis
      using False sp hex_digit_not_special(1) [OF nibbles_less(1), of c]
        hex_digit_not_special(1) [OF nibbles_less(2), of c]
      by (simp add: urlencode_byte_def)
  qed
qed

lemma percent_decode_urlencode:
  "percent_decode (map (\<lambda>c. if c = CHR ''+'' then CHR '' '' else c) (urlencode s)) = s"
proof (induction s)
  case Nil
  show ?case by (simp add: urlencode_def)
next
  case (Cons c s)
  then show ?case
    using percent_decode_byte [of c "map (\<lambda>c. if c = CHR ''+'' then CHR '' '' else c) (urlencode s)"]
    by (simp add: urlencode_def)
qed

lemma urldecode_urlencode: "urldecode (urlencode s) = utf8_replace s"
  by (simp add: urldecode_def percent_decode_urlencode)

lemma split_on_single: "d \<notin> set p \<Longrightarrow> split_on d p = [p]"
  by (induction p) auto

lemma split_on_piece: "d \<notin> set p \<Longrightarrow> split_on d (p @ d # rest) = p # split_on d rest"
  by (induction p) auto

lemma split_on_join:
  "ps \<noteq> [] \<Longrightarrow> \<forall>p \<in> set ps. d \<notin> set p \<Longrightarrow> split_on d (join_with d ps) = ps"
  by (induction d ps rule: join_with.induct) (simp_all add: split_on_single split_on_piece)

lemma takeWhile_until:
  "d \<notin> set xs \<Longrightarrow> takeWhile (\<lambda>c. c \<noteq> d) (xs @ d # ys) = xs"
  by (induction xs) auto

lemma usp_parse_pair_encoded:
  "usp_parse_pair (urlencode n @ CHR ''='' # urlencode v) = (utf8_replace n, utf8_replace v)"
proof -
  have "takeWhile (\<lambda>c. c \<noteq> CHR ''='') (urlencode n @ CHR ''='' # urlencode v) = urlencode n"
    using urlencode_clean(2) [of n] by (rule takeWhile_until)
  then show ?thesis
    by (simp add: usp_parse_pair_def urldecode_urlencode)
qed

lemma usp_parse_toString_general:
  "usp_parse (search_of_query (usp_toString qs))
     = map (\<lambda>p. (utf8_replace (fst p), utf8_replace (snd p))) qs"
proof (cases qs)
  case Nil
  then show ?thesis
    by (simp add: usp_toString_def search_of_query_def usp_parse_def)
next
  case (Cons q qs')
  define pieces where "pieces = map (\<lambda>p. urlencode (fst p) @ CHR ''='' # urlencode (snd p)) qs"
  have ne: "pieces \<noteq> []"
    using Cons by (simp add: pieces_def)
  have clean: "\<forall>p \<in> set pieces. CHR ''&'' \<notin> set p"
    by (auto simp: pieces_def urlencode_clean)
  have nonempty: "filter (\<lambda>p. p \<noteq> []) pieces = pieces"
    by (auto simp: pieces_def filter_id_conv)
  have str: "usp_toString qs \<noteq> []"
  proof
    assume "usp_toString qs = []"
    then have "split_on CHR ''&'' (join_with CHR ''&'' pieces) = [[]]"
      by (simp add: usp_toString_def pieces_def)
    then have "pieces = [[]]"
      using split_on_join [OF ne clean] by simp
    then show False
      using nonempty by simp
  qed
  have "usp_parse (search_of_query (usp_toString qs))
          = map usp_parse_pair (filter (\<lambda>p. p \<noteq> []) (split_on CHR ''&'' (join_with CHR ''&'' pieces)))"
    unfolding usp_parse_def to_usv_search
    using str by (simp add: search_of_query_def usp_toString_def pieces_def)
  also have "\<dots> = map usp_parse_pair pieces"
    by (simp add: split_on_join [OF ne clean] nonempty)
  also have "\<dots> = map (\<lambda>p. (utf8_replace (fst p), utf8_replace (snd p))) qs"
    by (simp add: pieces_def usp_parse_pair_encoded)
  finally show ?thesis .
qed

lemma usp_parse_toString:
  assumes "\<forall>p \<in> set qs. valid_utf8 (fst p) \<and> valid_utf8 (snd p)"
  shows "usp_parse (search_of_query (usp_toString qs)) = qs"
  unfolding usp_parse_toString_general
  using assms by (simp add: valid_utf8_replace map_idI)

lemma usp_parse_valid: "\<forall>p \<in> set (usp_parse s). valid_utf8 (fst p) \<and> valid_utf8 (snd p)"
  by (auto simp: usp_parse_def Let_def usp_parse_pair_def urldecode_def utf8_replace_valid)

lemma set_pair_subset: "set (set_pair qs k v) \<subseteq> insert (k, v) (set qs)"
  by (induction qs) auto

lemma map_of_set_pair: "map_of (set_pair qs k v) k = Some v"
  by (induction qs) auto

lemma usp_delete_absent: "to_usv k \<notin> fst ` set (usp_delete qs k)"
  by (auto simp: usp_delete_def)

lemma usp_get_set: "usp_get (usp_set qs k v) k = Some (to_usv v)"
  by (simp add: usp_get_def usp_set_def map_of_set_pair)

lemma usp_get_absent: "to_usv k \<notin> fst ` set qs \<Longrightarrow> usp_get qs k = None"
  by (simp add: usp_get_def map_of_eq_None_iff)

lemma usp_set_valid:
  assumes "\<forall>p \<in> set qs. valid_utf8 (fst p) \<and> valid_utf8 (snd p)"
    and "valid_utf8 k" and "valid_utf8 v"
  shows "\<forall>p \<in> set (usp_set qs k v). valid_utf8 (fst p) \<and> valid_utf8 (snd p)"
  using assms set_pair_subset [of qs "to_usv k" "to_usv v"]
  by (auto simp: usp_set_def valid_to_usv)

lemma usp_delete_valid:
  assumes "\<forall>p \<in> set qs. valid_utf8 (fst p) \<and> valid_utf8 (snd p)"
  shows "\<forall>p \<in> set (usp_delete qs k). valid_utf8 (fst p) \<and> valid_utf8 (snd p)"
  using assms by (simp add: usp_delete_def)

lemma query_after_change:
  assumes "\<And>x u. location_search (set_field x u) = location_search u"
    and "valid_utf8 key" and "valid_utf8 v"
  shows "usp_parse (location_search (makeOnChangeHandler set_field key v w))
           = (if v \<noteq> [] then usp_set (usp_parse (location_search w)) key v
              else usp_delete (usp_parse (location_search w)) key)"
  using usp_parse_toString [OF usp_set_valid [OF usp_parse_valid assms(2,3)]]
    usp_parse_toString [OF usp_delete_valid [OF usp_parse_valid]]
  by (simp add: makeOnChangeHandler_def Let_def assms(1) updateUrl_def)

lemma location_search_setters:
  "location_search (setNpub x u) = location_search u"
  "location_search (setQuery x u) = location_search u"
  "location_search (setFromDate x u) = location_search u"
  "location_search (setToDate x u) = location_search u"
  by (simp_all add: setNpub_def setQuery_def setFromDate_def setToDate_def)

lemma query_after_toggle:
  "usp_parse (location_search (toggleIncludeFollowed w))
     = (if includeNotesFromFollowedUsers w
        then usp_delete (usp_parse (location_search w)) INCLUDE_FOLLOWED_USERS_QUERY_PARAM
        else usp_set (usp_parse (location_search w)) INCLUDE_FOLLOWED_USERS_QUERY_PARAM ''1'')"
  using usp_parse_toString [OF usp_set_valid [OF usp_parse_valid valid_keys(5,6)]]
    usp_parse_toString [OF usp_delete_valid [OF usp_parse_valid]]
  by (simp add: toggleIncludeFollowed_def updateIncludeFollowedQueryParam_def Let_def
        updateUrl_def)

lemma App_init_fields:
  "npub (App_init s) = or_empty (usp_get (usp_parse s) ''npub'')"
  "query (App_init s) = or_empty (usp_get (usp_parse s) ''query'')"
  "fromDate (App_init s) = or_empty (usp_get (usp_parse s) ''fromDate'')"
  "toDate (App_init s) = or_empty (usp_get (usp_parse s) ''toDate'')"
  "includeNotesFromFollowedUsers (App_init s)
     = (usp_get (usp_parse s) INCLUDE_FOLLOWED_USERS_QUERY_PARAM = Some ''1'')"
  by (simp_all add: App_init_def Let_def)

lemma example_change:
  "location_search (makeOnChangeHandler setQuery ''query'' ''gm & co'' example_world)
     = ''?npub=npub1alice&includeFollowed=1&fromDate=1970-01-02&query=gm+%26+co''"
  "location_search (makeOnChangeHandler setQuery ''query'' e_acute example_world)
     = ''?npub=npub1alice&includeFollowed=1&fromDate=1970-01-02&query=%C3%A9''"
  "location_search (makeOnChangeHandler setNpub ''npub'' [] example_world_plain) = []"
  "location_search (toggleIncludeFollowed example_world)
     = ''?npub=npub1alice&fromDate=1970-01-02''"
  "location_search (toggleIncludeFollowed example_world_plain)
     = ''?npub=npub1alice&includeFollowed=1''"
  by code_simp+

lemma example_well_formed:
  "valid_utf8 ''gm & co''" "valid_utf8 e_acute" "\<not> valid_utf8 lone_surrogate"
  "valid_utf8 [CHR 0xF0, CHR 0x9F, CHR 0x98, CHR 0x80]" "\<not> valid_utf8 [CHR 0xFF]"
  by code_simp+

text \<open>What is not UTF-8 in the address bar is read as U+FFFD.\<close>

lemma example_invalid_bytes:
  "query (App_init ''?query=%FF'') = replacement_character"
  by code_simp

text \<open>
  Claim C7, as stated, fails: a value that holds a lone surrogate is kept as it is by the
  hook, is written to the query as U+FFFD, and the initialisation from that query gives
  U+FFFD, a different value.
\<close>

theorem lone_surrogate_counterexample:
  "lone_surrogate \<noteq> []
   \<and> query (makeOnChangeHandler setQuery ''query'' lone_surrogate example_world) = lone_surrogate
   \<and> location_search (makeOnChangeHandler setQuery ''query'' lone_surrogate example_world)
       = ''?npub=npub1alice&includeFollowed=1&fromDate=1970-01-02&query=%EF%BF%BD''
   \<and> query (App_init (location_search
               (makeOnChangeHandler setQuery ''query'' lone_surrogate example_world)))
       = replacement_character
   \<and> query (App_init (location_search
               (makeOnChangeHandler setQuery ''query'' lone_surrogate example_world)))
       \<noteq> lone_surrogate"
  by code_simp

text \<open>
  Claim C7, amended. For each of the four text fields, a change to a non-empty value that
  is well formed (holds no lone surrogate) followed by the initialisation of the component
  from the resulting \<open>location.search\<close> gives that value back; a change to the empty
  value leaves no pair of the field's name in the query. Toggling the checkbox on gives
  \<open>true\<close> back from the resulting query; toggling it off leaves no \<open>includeFollowed\<close>
  pair. A field whose name is absent from the query starts empty, the flag \<open>false\<close>.
\<close>

theorem query_string_round_trip:
  "(v \<noteq> [] \<and> valid_utf8 v \<longrightarrow>
      npub (App_init (location_search (makeOnChangeHandler setNpub ''npub'' v w))) = v
      \<and> query (App_init (location_search (makeOnChangeHandler setQuery ''query'' v w))) = v
      \<and> fromDate (App_init (location_search (makeOnChangeHandler setFromDate ''fromDate'' v w))) = v
      \<and> toDate (App_init (location_search (makeOnChangeHandler setToDate ''toDate'' v w))) = v)
   \<and> ''npub'' \<notin> fst ` set (usp_parse (location_search (makeOnChangeHandler setNpub ''npub'' [] w)))
   \<and> ''query'' \<notin> fst ` set (usp_parse (location_search (makeOnChangeHandler setQuery ''query'' [] w)))
   \<and> ''fromDate'' \<notin> fst ` set (usp_parse (location_search (makeOnChangeHandler setFromDate ''fromDate'' [] w)))
   \<and> ''toDate'' \<notin> fst ` set (usp_parse (location_search (makeOnChangeHandler setToDate ''toDate'' [] w)))
   \<and> (\<not> includeNotesFromFollowedUsers w \<longrightarrow>
        includeNotesFromFollowedUsers (toggleIncludeFollowed w)
        \<and> includeNotesFromFollowedUsers (App_init (location_search (toggleIncludeFollowed w))))
   \<and> (includeNotesFromFollowedUsers w \<longrightarrow>
        \<not> includeNotesFromFollowedUsers (toggleIncludeFollowed w)
        \<and> INCLUDE_FOLLOWED_USERS_QUERY_PARAM
             \<notin> fst ` set (usp_parse (location_search (toggleIncludeFollowed w))))
   \<and> (''npub'' \<notin> fst ` set (usp_parse s) \<longrightarrow> npub (App_init s) = [])
   \<and> (''query'' \<notin> fst ` set (usp_parse s) \<longrightarrow> query (App_init s) = [])
   \<and> (''fromDate'' \<notin> fst ` set (usp_parse s) \<longrightarrow> fromDate (App_init s) = [])
   \<and> (''toDate'' \<notin> fst ` set (usp_parse s) \<longrightarrow> toDate (App_init s) = [])
   \<and> (INCLUDE_FOLLOWED_USERS_QUERY_PARAM \<notin> fst ` set (usp_parse s) \<longrightarrow>
        \<not> includeNotesFromFollowedUsers (App_init s))"
proof -
  have set_case: "v \<noteq> [] \<and> valid_utf8 v \<longrightarrow>
      npub (App_init (location_search (makeOnChangeHandler setNpub ''npub'' v w))) = v
      \<and> query (App_init (location_search (makeOnChangeHandler setQuery ''query'' v w))) = v
      \<and> fromDate (App_init (location_search (makeOnChangeHandler setFromDate ''fromDate'' v w))) = v
      \<and> toDate (App_init (location_search (makeOnChangeHandler setToDate ''toDate'' v w))) = v"
    by (simp add: query_after_change location_search_setters valid_keys
          App_init_fields usp_get_set valid_to_usv or_empty_def del: to_usv.simps)
  have empty: "valid_utf8 []" by simp
  have del_case:
    "''npub'' \<notin> fst ` set (usp_parse (location_search (makeOnChangeHandler setNpub ''npub'' [] w)))"
    "''query'' \<notin> fst ` set (usp_parse (location_search (makeOnChangeHandler setQuery ''query'' [] w)))"
    "''fromDate'' \<notin> fst ` set (usp_parse (location_search (makeOnChangeHandler setFromDate ''fromDate'' [] w)))"
    "''toDate'' \<notin> fst ` set (usp_parse (location_search (makeOnChangeHandler setToDate ''toDate'' [] w)))"
    using usp_delete_absent [of "''npub''"] usp_delete_absent [of "''query''"]
      usp_delete_absent [of "''fromDate''"] usp_delete_absent [of "''toDate''"]
    by (simp_all add: query_after_change location_search_setters valid_keys empty to_usv_keys
          del: to_usv.simps)
  have flag_on: "\<not> includeNotesFromFollowedUsers w \<longrightarrow>
        includeNotesFromFollowedUsers (toggleIncludeFollowed w)
        \<and> includeNotesFromFollowedUsers (App_init (location_search (toggleIncludeFollowed w)))"
    by (simp add: query_after_toggle App_init_fields usp_get_set to_usv_keys
          del: to_usv.simps)
       (simp add: toggleIncludeFollowed_def)
  have flag_off: "includeNotesFromFollowedUsers w \<longrightarrow>
        \<not> includeNotesFromFollowedUsers (toggleIncludeFollowed w)
        \<and> INCLUDE_FOLLOWED_USERS_QUERY_PARAM
             \<notin> fst ` set (usp_parse (location_search (toggleIncludeFollowed w)))"
    using usp_delete_absent [of INCLUDE_FOLLOWED_USERS_QUERY_PARAM]
    by (simp add: query_after_toggle to_usv_keys del: to_usv.simps)
       (simp add: toggleIncludeFollowed_def)
  have absent:
    "''npub'' \<notin> fst ` set (usp_parse s) \<longrightarrow> npub (App_init s) = []"
    "''query'' \<notin> fst ` set (usp_parse s) \<longrightarrow> query (App_init s) = []"
    "''fromDate'' \<notin> fst ` set (usp_parse s) \<longrightarrow> fromDate (App_init s) = []"
    "''toDate'' \<notin> fst ` set (usp_parse s) \<longrightarrow> toDate (App_init s) = []"
    "INCLUDE_FOLLOWED_USERS_QUERY_PARAM \<notin> fst ` set (usp_parse s) \<longrightarrow>
        \<not> includeNotesFromFollowedUsers (App_init s)"
    using usp_get_absent [of "''npub''" "usp_parse s"] usp_get_absent [of "''query''" "usp_parse s"]
      usp_get_absent [of "''fromDate''" "usp_parse s"] usp_get_absent [of "''toDate''" "usp_parse s"]
      usp_get_absent [of INCLUDE_FOLLOWED_USERS_QUERY_PARAM "usp_parse s"]
    by (simp_all add: App_init_fields to_usv_keys or_empty_def del: to_usv.simps)
  show ?thesis
    using set_case del_case flag_on flag_off absent by blast
qed

theorem query_string_round_trip_witness:
  "''gm & co'' \<noteq> [] \<and> valid_utf8 ''gm & co''
   \<and> location_search (makeOnChangeHandler setQuery ''query'' ''gm & co'' example_world)
       = ''?npub=npub1alice&includeFollowed=1&fromDate=1970-01-02&query=gm+%26+co''
   \<and> query (App_init ''?npub=npub1alice&includeFollowed=1&fromDate=1970-01-02&query=gm+%26+co'')
       = ''gm & co''
   \<and> e_acute \<noteq> [] \<and> valid_utf8 e_acute
   \<and> query (App_init ''?npub=npub1alice&includeFollowed=1&fromDate=1970-01-02&query=%C3%A9'')
       = e_acute
   \<and> includeNotesFromFollowedUsers example_world
   \<and> location_search (toggleIncludeFollowed example_world)
       = ''?npub=npub1alice&fromDate=1970-01-02''
   \<and> \<not> includeNotesFromFollowedUsers (toggleIncludeFollowed example_world)
   \<and> \<not> includeNotesFromFollowedUsers example_world_plain
   \<and> location_search (toggleIncludeFollowed example_world_plain)
       = ''?npub=npub1alice&includeFollowed=1''
   \<and> includeNotesFromFollowedUsers (App_init ''?npub=npub1alice&includeFollowed=1'')
   \<and> ''npub'' \<notin> fst ` set (usp_parse [])
   \<and> npub (App_init []) = []"
proof -
  have ne: "''gm & co'' \<noteq> []" "e_acute \<noteq> []"
    by (simp_all add: e_acute_def)
  have ab: "''npub'' \<notin> fst ` set (usp_parse [])"
    by (simp add: example_queries)
  show ?thesis
    using query_string_round_trip [of "''gm & co''" example_world "[]"]
      query_string_round_trip [of e_acute example_world_plain "[]"]
      query_string_round_trip [of e_acute example_world "[]"]
      ne ab example_change example_well_formed(1,2)
      example_world_fields(2) example_world_plain_fields(2)
    by simp
qed

section \<open>Properties of the contact list and the authors\<close>

lemma tag_pubkey_nth:
  "tag_pubkey t = (if 2 \<le> length t then Some (t ! 1) else None)"
  by (cases t rule: tag_pubkey.cases) simp_all

lemma example_relay_get:
  "relay_get example_host (contactFilter (decodedNpub example_submission))
     = Some example_contact_list"
  by (simp add: example_submission_def example_host_def contactFilter_def)

lemma example_followed:
  "followedAuthorPubkeys (Some example_contact_list) = [Some ''b0b'', Some ''a11ce'', None]"
  by (simp add: followedAuthorPubkeys_def example_contact_list_def)

text \<open>
  Claim C4, as stated, fails: the example contact list names the author's own key, and the
  \<open>authors\<close> of the note query then hold that key twice.
\<close>

theorem authors_not_unique_counterexample:
  "snd (handleSubmit example_host example_world) = Some example_submission
   \<and> \<not> distinct (authors (noteFilter example_host example_submission
                              (fetched_contacts example_host example_submission)))"
  by (simp add: example_handleSubmit example_authors)

text \<open>
  Claim C4, amended. For a submission with the flag set, the \<open>authors\<close> of the note query
  are the list of the entries extracted from the contact list, in tag order, followed by
  the decoded author key: one entry for each tag and one more, nothing removed. The list
  is free of duplicates exactly when the extracted entries are pairwise different and the
  decoded author key is not among them.
\<close>

theorem authors_list_shape:
  assumes "handleSubmit h w = (w1, Some c)" and "includeNotesFromFollowedUsers w"
  defines "followed \<equiv> followedAuthorPubkeys (relay_get h (contactFilter (decodedNpub c)))"
  shows "authors (noteFilter h c (fetched_contacts h c)) = followed @ [Some (decodedNpub c)]
       \<and> length (authors (noteFilter h c (fetched_contacts h c))) = length followed + 1
       \<and> distinct (authors (noteFilter h c (fetched_contacts h c)))
           = (distinct followed \<and> Some (decodedNpub c) \<notin> set followed)"
  using handleSubmit_Some(2) [OF assms(1)] assms(2)
  by (auto simp: authors_noteFilter fetched_contacts_def followed_def)

theorem authors_list_shape_witness:
  "handleSubmit example_host example_world
     = (example_world\<lparr>isSearching := True, relay_connects := [relay_url]\<rparr>,
        Some example_submission)
   \<and> includeNotesFromFollowedUsers example_world
   \<and> followedAuthorPubkeys (relay_get example_host (contactFilter (decodedNpub example_submission)))
       = [Some ''b0b'', Some ''a11ce'', None]
   \<and> length (authors (noteFilter example_host example_submission
                 (fetched_contacts example_host example_submission))) = 4"
  using authors_list_shape [OF example_handleSubmit example_world_fields(2)]
    example_world_fields(2) example_relay_get example_followed example_handleSubmit
  by simp

text \<open>
  Claim C5, as stated, fails: the third tag of the example contact list has no second
  element; it is not skipped, and the \<open>authors\<close> of the note query hold \<open>undefined\<close> for it.
\<close>

theorem malformed_tag_counterexample:
  "relay_get example_host (contactFilter (decodedNpub example_submission))
     = Some example_contact_list
   \<and> tags example_contact_list ! 2 = [''p'']
   \<and> length (followedAuthorPubkeys (Some example_contact_list)) = 3
   \<and> followedAuthorPubkeys (Some example_contact_list) ! 2 = None
   \<and> None \<in> set (authors (noteFilter example_host example_submission
                              (fetched_contacts example_host example_submission)))"
  by (simp add: example_authors example_relay_get example_followed)
     (simp add: example_contact_list_def)

text \<open>
  Claim C5, amended. The extraction maps each tag of the contact-list event to its second
  element, in order, one entry for each tag: a tag with fewer than two elements gives
  \<open>undefined\<close> at its position and is not skipped. No tag stops the search: the note query
  is sent with these entries followed by the decoded author key, its result is installed
  and the busy flag is cleared.
\<close>

theorem contact_keys_extraction:
  "followedAuthorPubkeys None = []
   \<and> followedAuthorPubkeys (Some e) = map tag_pubkey (tags e)
   \<and> length (followedAuthorPubkeys (Some e)) = length (tags e)
   \<and> (i < length (tags e) \<longrightarrow>
        followedAuthorPubkeys (Some e) ! i
          = (if 2 \<le> length (tags e ! i) then Some (tags e ! i ! 1) else None))
   \<and> (sub_includeFollowed c \<and> relay_get h (contactFilter (decodedNpub c)) = Some e \<longrightarrow>
        authors (noteFilter h c (fetched_contacts h c))
          = map tag_pubkey (tags e) @ [Some (decodedNpub c)]
        \<and> requests (on_connect h c w)
          = requests w @ [Get (contactFilter (decodedNpub c)),
                          List [noteFilter h c (fetched_contacts h c)]]
        \<and> events (on_connect h c w) = relay_list h [noteFilter h c (fetched_contacts h c)]
        \<and> \<not> isSearching (on_connect h c w))"
proof -
  have a: "followedAuthorPubkeys (Some e) = map tag_pubkey (tags e)"
    by (simp add: followedAuthorPubkeys_def)
  have b: "i < length (tags e) \<longrightarrow>
        followedAuthorPubkeys (Some e) ! i
          = (if 2 \<le> length (tags e ! i) then Some (tags e ! i ! 1) else None)"
    by (simp add: a tag_pubkey_nth)
  have c: "sub_includeFollowed c \<and> relay_get h (contactFilter (decodedNpub c)) = Some e \<longrightarrow>
        authors (noteFilter h c (fetched_contacts h c))
          = map tag_pubkey (tags e) @ [Some (decodedNpub c)]"
    by (simp add: authors_noteFilter fetched_contacts_def a)
  show ?thesis
    using b c by (simp add: a on_connect_installs requests_on_connect)
       (simp add: followedAuthorPubkeys_def)
qed

theorem contact_keys_extraction_witness:
  "(1::nat) < length (tags example_contact_list)
   \<and> followedAuthorPubkeys (Some example_contact_list) ! 1 = Some ''a11ce''
   \<and> (2::nat) < length (tags example_contact_list)
   \<and> followedAuthorPubkeys (Some example_contact_list) ! 2 = None
   \<and> sub_includeFollowed example_submission
   \<and> relay_get example_host (contactFilter (decodedNpub example_submission))
       = Some example_contact_list
   \<and> authors (noteFilter example_host example_submission
                 (fetched_contacts example_host example_submission))
       = [Some ''b0b'', Some ''a11ce'', None, Some ''a11ce'']
   \<and> events (on_connect example_host example_submission example_world)
       = replicate 12 example_note"
proof -
  have t: "tags example_contact_list = [[''p'', ''b0b''], [''p'', ''a11ce''], [''p'']]"
    by (simp add: example_contact_list_def)
  have s: "sub_includeFollowed example_submission"
          "decodedNpub example_submission = ''a11ce''"
    by (simp_all add: example_submission_def)
  have l: "relay_list example_host fs = replicate 12 example_note" for fs
    by (simp add: example_host_def)
  show ?thesis
    using contact_keys_extraction [of example_contact_list 1 example_submission example_host
            example_world]
      contact_keys_extraction [of example_contact_list 2 example_submission example_host
            example_world]
      t s example_relay_get l
    by simp
qed

section \<open>Properties of the time bounds\<close>

lemma parse_date_only_length: "parse_date_only s = Some ymd \<Longrightarrow> length s = 10"
  by (simp add: parse_date_only_def split: if_splits)

lemma convert_date_only:
  assumes "parse_date_only s = Some (y, m, d)"
  shows "convertDateToUnixTimestamp h s = Whole (days_from_civil y m d * 86400)"
proof -
  have "Date_getTime h s = Some (days_from_civil y m d * 86400000)"
    using assms by (simp add: Date_getTime_def)
  moreover have "days_from_civil y m d * 86400000 mod 1000 = 0"
    by simp
  moreover have "days_from_civil y m d * 86400000 div 1000 = days_from_civil y m d * 86400"
    by simp
  ultimately show ?thesis
    by (simp add: convertDateToUnixTimestamp_def)
qed

lemma example_parse: "parse_date_only ''1970-01-02'' = Some (1970, 1, 2)"
  by code_simp

lemma example_days: "days_from_civil 1970 1 2 = 1"
  by code_simp

text \<open>The day count on known dates: the epoch, a leap day, and 2023-01-15 (1673740800 s).\<close>

lemma days_from_civil_known:
  "days_from_civil 1970 1 1 = 0" "days_from_civil 2000 2 29 = 11016"
  "days_from_civil 2000 3 1 = 11017" "days_from_civil 2023 1 15 * 86400 = 1673740800"
  "days_from_civil 1969 12 31 = - 1"
  by code_simp+

lemma example_dates:
  "sub_fromDate example_submission = ''1970-01-02''" "sub_toDate example_submission = []"
  by (simp_all add: example_submission_def)

text \<open>
  Claim C6, as stated, fails: for the date \<open>1970-01-02\<close> the \<open>since\<close> bound is 86400, the
  seconds of that day at midnight UTC; in a zone one hour ahead of UTC, midnight local
  time of that day is at 82800.
\<close>

theorem local_midnight_counterexample:
  "parse_date_only ''1970-01-02'' = Some (1970, 1, 2)
   \<and> sub_fromDate example_submission = ''1970-01-02''
   \<and> since (noteFilter example_host example_submission []) = Some (Whole 86400)
   \<and> local_midnight_seconds 60 (1970, 1, 2) = 82800
   \<and> since (noteFilter example_host example_submission [])
       \<noteq> Some (Whole (local_midnight_seconds 60 (1970, 1, 2)))"
proof -
  have s: "since (noteFilter example_host example_submission []) = Some (Whole 86400)"
    using convert_date_only [OF example_parse, of example_host]
    by (simp add: noteFilter_def example_dates example_days)
  have l: "local_midnight_seconds 60 (1970, 1, 2) = 82800"
    by (simp add: local_midnight_seconds_def example_days)
  show ?thesis
    using s l example_parse example_dates by simp
qed

text \<open>
  Claim C6, amended. For a \<open>fromDate\<close> (and likewise a \<open>toDate\<close>) that is a calendar date
  \<open>YYYY-MM-DD\<close>, the \<open>since\<close> (\<open>until\<close>) bound is the epoch seconds of that day at
  midnight UTC, whatever the local time zone: the integer 86400 times the day's distance
  from 1970-01-01. When the field is empty the bound is absent.
\<close>

theorem date_bounds_utc:
  assumes "parse_date_only s = Some (y, m, d)"
  shows "s \<noteq> []
       \<and> convertDateToUnixTimestamp h s = Whole (days_from_civil y m d * 86400)
       \<and> days_from_civil y m d * 86400 = local_midnight_seconds 0 (y, m, d)
       \<and> (sub_fromDate c = s \<longrightarrow>
            since (noteFilter h c followed) = Some (Whole (days_from_civil y m d * 86400)))
       \<and> (sub_toDate c = s \<longrightarrow>
            until (noteFilter h c followed) = Some (Whole (days_from_civil y m d * 86400)))
       \<and> (sub_fromDate c = [] \<longrightarrow> since (noteFilter h c followed) = None)
       \<and> (sub_toDate c = [] \<longrightarrow> until (noteFilter h c followed) = None)"
proof -
  have n: "s \<noteq> []"
    using parse_date_only_length [OF assms] by auto
  show ?thesis
    using n convert_date_only [OF assms, of h]
    by (simp add: noteFilter_def local_midnight_seconds_def)
qed

theorem date_bounds_utc_witness:
  "parse_date_only ''1970-01-02'' = Some (1970, 1, 2)
   \<and> sub_fromDate example_submission = ''1970-01-02''
   \<and> since (noteFilter example_host example_submission []) = Some (Whole 86400)
   \<and> sub_toDate example_submission = []
   \<and> until (noteFilter example_host example_submission []) = None"
  using date_bounds_utc [OF example_parse, of example_host example_submission "[]"]
    example_dates example_parse example_days
  by simp

end
